theory Spec2Isabelle
  imports Main "HOL-Library.Log_Nat"
begin

section \<open>JavaScript numbers\<close>

text \<open>
  The amount of an invoice is a JavaScript number: an IEEE 754 double. A finite double is
  modelled by the rational it denotes, next to \<open>NaN\<close> and the two infinities. The two
  zeros are one value \<open>Fin 0\<close>: the actions below only compare the amount with \<open>0\<close>,
  which does not tell them apart, and reject it before any arithmetic.
\<close>

datatype js_number = NaN | PosInf | NegInf | Fin rat

definition pow2 :: "int \<Rightarrow> rat" where
  "pow2 e = (if 0 \<le> e then 2 ^ nat e else 1 / 2 ^ nat (- e))"

text \<open>\<open>ilog2 x\<close> is the exponent \<open>e\<close> with \<open>2^e \<le> x < 2^(e+1)\<close>, for \<open>0 < x\<close>.\<close>

definition ilog2 :: "rat \<Rightarrow> int" where
  "ilog2 x = (if 1 \<le> x then bitlen \<lfloor>x\<rfloor> - 1 else - bitlen (\<lceil>1 / x\<rceil> - 1))"

definition round_half_even :: "rat \<Rightarrow> int" where
  "round_half_even x =
     (let f = \<lfloor>x\<rfloor>; d = x - of_int f
      in if d < 1 / 2 then f
         else if 1 / 2 < d then f + 1
         else if even f then f else f + 1)"

text \<open>
  Rounding of a positive rational to 53 significant bits, ties to even; the unit in the
  last place is never below \<open>2^-1074\<close> (subnormal numbers).
\<close>

definition round_pos :: "rat \<Rightarrow> rat" where
  "round_pos x =
     (let p = max (ilog2 x - 52) (- 1074)
      in of_int (round_half_even (x / pow2 p)) * pow2 p)"

definition round_double :: "rat \<Rightarrow> js_number" where
  "round_double x =
     (if x = 0 then Fin 0
      else if 0 < x then (let r = round_pos x in if pow2 1024 \<le> r then PosInf else Fin r)
      else (let r = round_pos (- x) in if pow2 1024 \<le> r then NegInf else Fin (- r)))"

text \<open>The operator \<^verbatim>\<open>*\<close> on numbers: the exact product, rounded.\<close>

fun js_mul :: "js_number \<Rightarrow> js_number \<Rightarrow> js_number" where
  "js_mul NaN _ = NaN"
| "js_mul _ NaN = NaN"
| "js_mul (Fin a) (Fin b) = round_double (a * b)"
| "js_mul (Fin a) PosInf = (if a = 0 then NaN else if 0 < a then PosInf else NegInf)"
| "js_mul (Fin a) NegInf = (if a = 0 then NaN else if 0 < a then NegInf else PosInf)"
| "js_mul PosInf (Fin b) = (if b = 0 then NaN else if 0 < b then PosInf else NegInf)"
| "js_mul NegInf (Fin b) = (if b = 0 then NaN else if 0 < b then NegInf else PosInf)"
| "js_mul PosInf PosInf = PosInf"
| "js_mul PosInf NegInf = NegInf"
| "js_mul NegInf PosInf = NegInf"
| "js_mul NegInf NegInf = PosInf"

text \<open>The comparison \<^verbatim>\<open>a <= b\<close>: false as soon as one side is \<open>NaN\<close>.\<close>

fun js_le :: "js_number \<Rightarrow> js_number \<Rightarrow> bool" where
  "js_le NaN _ = False"
| "js_le _ NaN = False"
| "js_le NegInf _ = True"
| "js_le _ PosInf = True"
| "js_le PosInf _ = False"
| "js_le _ NegInf = False"
| "js_le (Fin a) (Fin b) = (a \<le> b)"

definition is_integer_number :: "js_number \<Rightarrow> bool" where
  "is_integer_number n = (case n of Fin q \<Rightarrow> of_int \<lfloor>q\<rfloor> = q | _ \<Rightarrow> False)"

section \<open>Strings to numbers\<close>

text \<open>
  \<open>Number(s)\<close> on a string follows the grammar of \<open>StringNumericLiteral\<close>: white space
  around, then nothing (zero), a signed decimal literal, \<open>Infinity\<close>, or an unsigned
  hexadecimal, octal or binary integer; anything else is \<open>NaN\<close>. A character is a code
  unit below 256 here, so of the white space of the language the model knows TAB, LF, VT,
  FF, CR, SP and NBSP.
\<close>

definition is_ws :: "char \<Rightarrow> bool" where
  "is_ws c = ((of_char c :: nat) \<in> {9, 10, 11, 12, 13, 32, 160})"

definition trim :: "string \<Rightarrow> string" where
  "trim s = rev (dropWhile is_ws (rev (dropWhile is_ws s)))"

definition digit_of :: "char \<Rightarrow> nat option" where
  "digit_of c =
     (let n = (of_char c :: nat)
      in if 48 \<le> n \<and> n \<le> 57 then Some (n - 48)
         else if 97 \<le> n \<and> n \<le> 102 then Some (n - 87)
         else if 65 \<le> n \<and> n \<le> 70 then Some (n - 55)
         else None)"

definition is_digit_base :: "nat \<Rightarrow> char \<Rightarrow> bool" where
  "is_digit_base b c = (case digit_of c of Some d \<Rightarrow> d < b | None \<Rightarrow> False)"

definition digits_value :: "nat \<Rightarrow> string \<Rightarrow> nat" where
  "digits_value b ds =
     foldl (\<lambda>a c. b * a + (case digit_of c of Some d \<Rightarrow> d | None \<Rightarrow> 0)) 0 ds"

definition non_decimal_literal :: "string \<Rightarrow> nat option" where
  "non_decimal_literal t =
     (case t of
        c0 # p # ds \<Rightarrow>
          (let b = (if p = CHR ''x'' \<or> p = CHR ''X'' then 16
                    else if p = CHR ''o'' \<or> p = CHR ''O'' then 8
                    else if p = CHR ''b'' \<or> p = CHR ''B'' then 2
                    else 0 :: nat)
           in if c0 = CHR ''0'' \<and> b \<noteq> 0 \<and> ds \<noteq> [] \<and> list_all (is_digit_base b) ds
              then Some (digits_value b ds) else None)
      | _ \<Rightarrow> None)"

fun sign_split :: "string \<Rightarrow> bool \<times> string" where
  "sign_split [] = (False, [])"
| "sign_split (c # r) =
     (if c = CHR ''+'' then (False, r) else if c = CHR ''-'' then (True, r) else (False, c # r))"

text \<open>The exponent part: absent, or \<open>e\<close> or \<open>E\<close>, an optional sign and at least one digit.\<close>

definition exponent_part :: "string \<Rightarrow> int option" where
  "exponent_part r =
     (case r of
        [] \<Rightarrow> Some 0
      | c # r' \<Rightarrow>
          (if c = CHR ''e'' \<or> c = CHR ''E''
           then (let (neg, ds) = sign_split r'
                 in if ds \<noteq> [] \<and> list_all (is_digit_base 10) ds
                    then Some (if neg then - int (digits_value 10 ds) else int (digits_value 10 ds))
                    else None)
           else None))"

datatype math_value = MInfinity | MV rat

definition pow10 :: "int \<Rightarrow> rat" where
  "pow10 e = (if 0 \<le> e then 10 ^ nat e else 1 / 10 ^ nat (- e))"

definition unsigned_decimal_literal :: "string \<Rightarrow> math_value option" where
  "unsigned_decimal_literal u =
     (if u = ''Infinity'' then Some MInfinity
      else
        (let ip = takeWhile (is_digit_base 10) u;
             r1 = dropWhile (is_digit_base 10) u;
             (fp, r2) = (case r1 of
                           [] \<Rightarrow> ([], [])
                         | c # r \<Rightarrow>
                             (if c = CHR ''.''
                              then (takeWhile (is_digit_base 10) r, dropWhile (is_digit_base 10) r)
                              else ([], r1)))
         in if ip = [] \<and> fp = [] then None
            else (case exponent_part r2 of
                    None \<Rightarrow> None
                  | Some e \<Rightarrow>
                      Some (MV ((of_nat (digits_value 10 ip)
                                 + of_nat (digits_value 10 fp) / 10 ^ length fp) * pow10 e)))))"

definition StringToNumber :: "string \<Rightarrow> js_number" where
  "StringToNumber s =
     (let t = trim s
      in if t = [] then Fin 0
         else (case non_decimal_literal t of
                 Some n \<Rightarrow> round_double (of_nat n)
               | None \<Rightarrow>
                   (let (neg, u) = sign_split t
                    in case unsigned_decimal_literal u of
                         None \<Rightarrow> NaN
                       | Some MInfinity \<Rightarrow> (if neg then NegInf else PosInf)
                       | Some (MV q) \<Rightarrow> round_double (if neg then - q else q))))"

section \<open>Form data\<close>

text \<open>
  A \<open>FormData\<close> is a list of entries, each a name with a string or a file (of which only
  the name is kept). \<open>formData.get(name)\<close> is the first value under that name, or
  \<open>null\<close>, here \<open>None\<close>.
\<close>

datatype FormDataEntryValue = Str string | File string

type_synonym FormData = "(string \<times> FormDataEntryValue) list"

definition FormData_get :: "FormData \<Rightarrow> string \<Rightarrow> FormDataEntryValue option" where
  "FormData_get formData name = map_of formData name"

text \<open>
  \<open>Number(v)\<close> for a value a form can hold: \<open>null\<close> is \<open>0\<close>, a string is read as above, a
  file is an object whose string is not a numeral.
\<close>

fun Number :: "FormDataEntryValue option \<Rightarrow> js_number" where
  "Number None = Fin 0"
| "Number (Some (Str s)) = StringToNumber s"
| "Number (Some (File _)) = NaN"

section \<open>Validation\<close>

text \<open>
  The schema library reports a failed validation as a list of issues, each with the path
  of the field and a message. \<open>FormSchema\<close> declares five fields; \<open>CreateInvoice\<close> and
  \<open>UpdateInvoice\<close> are \<open>FormSchema\<close> without \<open>id\<close> and \<open>date\<close>, so three fields are
  validated, in the order of the declaration: \<open>customerId\<close>, \<open>amount\<close>, \<open>status\<close>.
\<close>

record ZodIssue =
  path :: "string list"
  message :: string

text \<open>
  \<open>z.string({invalid_type_error})\<close>: any string passes, also the empty one; \<open>null\<close> and a
  file are of the wrong type, reported with the message given.
\<close>

definition z_string :: "string \<Rightarrow> FormDataEntryValue option \<Rightarrow> string list + string" where
  "z_string invalid_type_error v =
     (case v of Some (Str s) \<Rightarrow> Inr s | _ \<Rightarrow> Inl [invalid_type_error])"

text \<open>
  \<open>z.coerce.number().gt(0, {message})\<close>: the value is coerced with \<open>Number\<close>; \<open>NaN\<close> is
  of the wrong type, with the library's own message; then the check fails when
  \<^verbatim>\<open>data <= 0\<close>.
\<close>

definition z_coerce_number_gt ::
    "js_number \<Rightarrow> string \<Rightarrow> FormDataEntryValue option \<Rightarrow> string list + js_number" where
  "z_coerce_number_gt bound msg v =
     (let data = Number v
      in if data = NaN then Inl [''Expected number, received nan'']
         else if js_le data bound then Inl [msg]
         else Inr data)"

text \<open>
  \<open>z.enum(values, {invalid_type_error})\<close>: a value that is no string is of the wrong
  type, with the message given; a string outside \<open>values\<close> gets the library's own message.
\<close>

definition quoted :: "string \<Rightarrow> string" where
  "quoted v = [CHR 0x27] @ v @ [CHR 0x27]"

fun joinValues :: "string list \<Rightarrow> string" where
  "joinValues [] = []"
| "joinValues [v] = quoted v"
| "joinValues (v # w # vs) = quoted v @ '' | '' @ joinValues (w # vs)"

definition z_enum ::
    "string list \<Rightarrow> string \<Rightarrow> FormDataEntryValue option \<Rightarrow> string list + string" where
  "z_enum vals invalid_type_error v =
     (case v of
        Some (Str s) \<Rightarrow>
          (if s \<in> set vals then Inr s
           else Inl [''Invalid enum value. Expected '' @ joinValues vals @ '', received ''
                     @ quoted s])
      | _ \<Rightarrow> Inl [invalid_type_error])"

record RawInvoice =
  raw_customerId :: "FormDataEntryValue option"
  raw_amount :: "FormDataEntryValue option"
  raw_status :: "FormDataEntryValue option"

record InvoiceData =
  customerId :: string
  amount :: js_number
  status :: string

datatype SafeParseResult = Success InvoiceData | Failure "ZodIssue list"

definition issues_at :: "string \<Rightarrow> string list + 'a \<Rightarrow> ZodIssue list" where
  "issues_at field r =
     (case r of Inl msgs \<Rightarrow> map (\<lambda>m. \<lparr>path = [field], message = m\<rparr>) msgs | Inr _ \<Rightarrow> [])"

definition FormSchema_customerId :: "FormDataEntryValue option \<Rightarrow> string list + string" where
  "FormSchema_customerId = z_string ''Please select a customer.''"

definition FormSchema_amount :: "FormDataEntryValue option \<Rightarrow> string list + js_number" where
  "FormSchema_amount = z_coerce_number_gt (Fin 0) ''Please enter an amount greater than $0.''"

definition FormSchema_status :: "FormDataEntryValue option \<Rightarrow> string list + string" where
  "FormSchema_status = z_enum [''pending'', ''paid''] ''Please select an invoice status.''"

text \<open>\<open>FormSchema.omit({ id: true, date: true })\<close>: the object of the three fields left.\<close>

definition FormSchema_omit_id_date :: "RawInvoice \<Rightarrow> SafeParseResult" where
  "FormSchema_omit_id_date raw =
     (let c = FormSchema_customerId (raw_customerId raw);
          a = FormSchema_amount (raw_amount raw);
          s = FormSchema_status (raw_status raw)
      in case (c, a, s) of
           (Inr cv, Inr av, Inr sv) \<Rightarrow> Success \<lparr>customerId = cv, amount = av, status = sv\<rparr>
         | _ \<Rightarrow> Failure (issues_at ''customerId'' c @ issues_at ''amount'' a
                          @ issues_at ''status'' s))"

definition CreateInvoice_safeParse :: "RawInvoice \<Rightarrow> SafeParseResult" where
  "CreateInvoice_safeParse = FormSchema_omit_id_date"

definition UpdateInvoice_safeParse :: "RawInvoice \<Rightarrow> SafeParseResult" where
  "UpdateInvoice_safeParse = FormSchema_omit_id_date"

text \<open>
  \<open>error.flatten().fieldErrors\<close>: for each field the messages of its issues, in order;
  a field without an issue has no entry.
\<close>

definition fieldErrors :: "ZodIssue list \<Rightarrow> (string \<rightharpoonup> string list)" where
  "fieldErrors issues =
     (\<lambda>k. let ms = map message (filter (\<lambda>i. path i \<noteq> [] \<and> hd (path i) = k) issues)
          in if ms = [] then None else Some ms)"

section \<open>Effects\<close>

text \<open>
  What an action can raise: a plain \<open>Error\<close> with its message, the validation error of
  \<open>parse\<close>, an \<open>AuthError\<close> (or a subclass) with its \<open>type\<close> discriminant, the signal that
  \<open>redirect\<close> throws, with its path, and whatever the database client rejects with.
\<close>

datatype js_error =
    Error string
  | ZodError "ZodIssue list"
  | AuthError string
  | NEXT_REDIRECT string
  | DatabaseError string

text \<open>
  A statement completes normally, returns a value from the function, or throws. At the
  end of a function body \<open>Normal\<close> stands for the result \<open>undefined\<close>.
\<close>

datatype 'r completion = Normal | Return 'r | Throw js_error

record invoice_row =
  row_id :: string
  row_customer_id :: string
  row_amount :: js_number
  row_status :: string
  row_date :: string

text \<open>The three statements the actions send, with their bound parameters in order.\<close>

datatype sql_stmt =
    SQL_INSERT string js_number string string
  | SQL_UPDATE string js_number string string
  | SQL_DELETE string

text \<open>
  The world an action runs in: the rows of the table \<open>invoices\<close>, the statements sent to
  the database so far, and the paths handed to \<open>revalidatePath\<close> so far.
\<close>

record world =
  invoices :: "invoice_row list"
  issued :: "sql_stmt list"
  revalidated :: "string list"

text \<open>
  What the action does not decide: the clock (the string \<open>new Date().toISOString()\<close>
  gives), whether the database rejects a statement and with what, the identifier the
  database gives a new row, and whether \<open>signIn\<close> rejects and with what.
\<close>

record env =
  now_iso :: string
  sql_error :: "sql_stmt \<Rightarrow> js_error option"
  generated_id :: string
  signIn_error :: "string \<Rightarrow> FormData \<Rightarrow> js_error option"

type_synonym 'r stmt = "world \<Rightarrow> 'r completion \<times> world"

definition seq :: "'r stmt \<Rightarrow> 'r stmt \<Rightarrow> 'r stmt" where
  "seq s1 s2 w = (case s1 w of (Normal, w') \<Rightarrow> s2 w' | (c, w') \<Rightarrow> (c, w'))"

definition try_catch :: "'r stmt \<Rightarrow> (js_error \<Rightarrow> 'r stmt) \<Rightarrow> 'r stmt" where
  "try_catch body handler w =
     (case body w of (Throw e, w') \<Rightarrow> handler e w' | (c, w') \<Rightarrow> (c, w'))"

definition throw :: "js_error \<Rightarrow> 'r stmt" where
  "throw e w = (Throw e, w)"

definition return :: "'r \<Rightarrow> 'r stmt" where
  "return v w = (Return v, w)"

text \<open>
  A statement that the database accepts changes the table: an insert adds one row, an
  update assigns three columns of the rows with the identifier, a delete removes the rows
  with the identifier. A rejected statement leaves the table as it was.
\<close>

fun exec_sql :: "string \<Rightarrow> sql_stmt \<Rightarrow> invoice_row list \<Rightarrow> invoice_row list" where
  "exec_sql new (SQL_INSERT c a s d) rows =
     rows @ [\<lparr>row_id = new, row_customer_id = c, row_amount = a, row_status = s, row_date = d\<rparr>]"
| "exec_sql new (SQL_UPDATE c a s i) rows =
     map (\<lambda>r. if row_id r = i then r\<lparr>row_customer_id := c, row_amount := a, row_status := s\<rparr>
               else r) rows"
| "exec_sql new (SQL_DELETE i) rows = filter (\<lambda>r. row_id r \<noteq> i) rows"

definition sql :: "env \<Rightarrow> sql_stmt \<Rightarrow> 'r stmt" where
  "sql e q w =
     (let w1 = w\<lparr>issued := issued w @ [q]\<rparr>
      in case sql_error e q of
           Some err \<Rightarrow> (Throw err, w1)
         | None \<Rightarrow> (Normal, w1\<lparr>invoices := exec_sql (generated_id e) q (invoices w)\<rparr>))"

definition revalidatePath :: "string \<Rightarrow> 'r stmt" where
  "revalidatePath p w = (Normal, w\<lparr>revalidated := revalidated w @ [p]\<rparr>)"

definition redirect :: "string \<Rightarrow> 'r stmt" where
  "redirect p = throw (NEXT_REDIRECT p)"

definition signIn :: "env \<Rightarrow> string \<Rightarrow> FormData \<Rightarrow> 'r stmt" where
  "signIn e provider formData w =
     (case signIn_error e provider formData of Some err \<Rightarrow> (Throw err, w) | None \<Rightarrow> (Normal, w))"

section \<open>The actions of part_000\<close>

text \<open>
  The object an invoice action returns: \<open>errors\<close> and \<open>message\<close>, both optional. The
  calls of \<open>console.log\<close> are left out.
\<close>

record State =
  errors :: "(string \<rightharpoonup> string list) option"
  message :: "string option"

definition raw_of :: "FormData \<Rightarrow> RawInvoice" where
  "raw_of formData =
     \<lparr>raw_customerId = FormData_get formData ''customerId'',
      raw_amount = FormData_get formData ''amount'',
      raw_status = FormData_get formData ''status''\<rparr>"

text \<open>\<open>new Date().toISOString().split('T')[0]\<close>: the text before the first \<open>T\<close>.\<close>

definition today :: "env \<Rightarrow> string" where
  "today e = takeWhile (\<lambda>c. c \<noteq> CHR ''T'') (now_iso e)"

definition createInvoice :: "env \<Rightarrow> State \<Rightarrow> FormData \<Rightarrow> State stmt" where
  "createInvoice e prevState formData =
     (let validatedFields = CreateInvoice_safeParse (raw_of formData)
      in case validatedFields of
           Failure issues \<Rightarrow>
             return \<lparr>errors = Some (fieldErrors issues),
                     message = Some ''Missing Fields. Failed to Create Invoice.''\<rparr>
         | Success data \<Rightarrow>
             (let amountInCents = js_mul (amount data) (Fin 100);
                  date = today e
              in seq (try_catch
                        (sql e (SQL_INSERT (customerId data) amountInCents (status data) date))
                        (\<lambda>error. return \<lparr>errors = None,
                                          message = Some ''Database Error: Failed to Create Invoice.''\<rparr>))
                     (seq (revalidatePath ''/dashboard/invoices'')
                          (redirect ''/dashboard/invoices''))))"

text \<open>\<open>schema.parse\<close> is \<open>safeParse\<close>, throwing the error of a failure.\<close>

definition updateInvoice :: "env \<Rightarrow> string \<Rightarrow> FormData \<Rightarrow> State stmt" where
  "updateInvoice e ident formData =
     (case UpdateInvoice_safeParse (raw_of formData) of
        Failure issues \<Rightarrow> throw (ZodError issues)
      | Success data \<Rightarrow>
          (let amountInCents = js_mul (amount data) (Fin 100)
           in seq (try_catch
                     (sql e (SQL_UPDATE (customerId data) amountInCents (status data) ident))
                     (\<lambda>error. return \<lparr>errors = None,
                                       message = Some ''Database Error: Failed to Update Invoice.''\<rparr>))
                  (seq (revalidatePath ''/dashboard/invoices'')
                       (redirect ''/dashboard/invoices''))))"

text \<open>The part of \<open>deleteInvoice\<close> below its first statement: the \<open>try\<close> with its \<open>catch\<close>.\<close>

definition deleteInvoice_logic :: "env \<Rightarrow> string \<Rightarrow> State stmt" where
  "deleteInvoice_logic e ident =
     try_catch
       (seq (sql e (SQL_DELETE ident))
            (seq (revalidatePath ''/dashboard/invoices'')
                 (return \<lparr>errors = None, message = Some ''Deleted Invoice.''\<rparr>)))
       (\<lambda>error. return \<lparr>errors = None,
                         message = Some ''Database Error: Failed to Delete Invoice.''\<rparr>)"

definition deleteInvoice :: "env \<Rightarrow> string \<Rightarrow> State stmt" where
  "deleteInvoice e ident =
     seq (throw (Error ''Failed to Delete Invoice'')) (deleteInvoice_logic e ident)"

definition authenticate :: "env \<Rightarrow> string option \<Rightarrow> FormData \<Rightarrow> string stmt" where
  "authenticate e prevState formData =
     try_catch
       (signIn e ''credentials'' formData)
       (\<lambda>error. case error of
                   AuthError t \<Rightarrow>
                     (if t = ''CredentialsSignin'' then return ''Invalid credentials.''
                      else return ''Something went wrong.'')
                 | _ \<Rightarrow> throw error)"

section \<open>The action of app/lib/actions.ts\<close>

text \<open>The earlier \<open>deleteInvoice\<close>: the statement, then the invalidation, nothing caught.\<close>

definition actions_deleteInvoice :: "env \<Rightarrow> string \<Rightarrow> State stmt" where
  "actions_deleteInvoice e ident =
     seq (sql e (SQL_DELETE ident)) (revalidatePath ''/dashboard/invoices'')"

section \<open>Sample inputs\<close>

text \<open>
  A database that accepts every statement and one that rejects every statement, a table
  of two invoices, and a form for customer \<open>C1\<close> with status \<open>pending\<close> and a given
  amount.
\<close>

definition demo_env :: env where
  "demo_env = \<lparr>now_iso = ''2026-11-03T09:30:00.000Z'', sql_error = (\<lambda>q. None),
               generated_id = ''inv-3'', signIn_error = (\<lambda>p f. None)\<rparr>"

definition failing_env :: env where
  "failing_env = \<lparr>now_iso = ''2026-11-03T09:30:00.000Z'',
                  sql_error = (\<lambda>q. Some (DatabaseError ''connection refused'')),
                  generated_id = ''inv-3'', signIn_error = (\<lambda>p f. None)\<rparr>"

definition demo_world :: world where
  "demo_world =
     \<lparr>invoices = [\<lparr>row_id = ''inv-1'', row_customer_id = ''C1'', row_amount = Fin 1050,
                    row_status = ''pending'', row_date = ''2026-10-01''\<rparr>,
                  \<lparr>row_id = ''inv-2'', row_customer_id = ''C2'', row_amount = Fin 400,
                    row_status = ''paid'', row_date = ''2026-10-02''\<rparr>],
      issued = [], revalidated = []\<rparr>"

definition no_state :: State where
  "no_state = \<lparr>errors = None, message = None\<rparr>"

definition demo_form :: "string \<Rightarrow> FormData" where
  "demo_form amt =
     [(''customerId'', Str ''C1''), (''amount'', Str amt), (''status'', Str ''pending'')]"

section \<open>Numbers: facts\<close>

text \<open>\<open>ilog2\<close> is the binary exponent: \<open>2^(ilog2 x) \<le> x < 2^(ilog2 x + 1)\<close>.\<close>

lemma pow2_nat: "0 \<le> k \<Longrightarrow> pow2 k = 2 ^ nat k"
  by (simp add: pow2_def)

lemma ilog2_bounds_ge1:
  assumes "1 \<le> x"
  shows "pow2 (ilog2 x) \<le> x \<and> x < pow2 (ilog2 x + 1)"
proof -
  define n where "n = \<lfloor>x\<rfloor>"
  have n: "0 < n" "of_int n \<le> x" "x < of_int n + 1"
    using assms floor_correct [of x] by (simp_all add: n_def)
  have b: "2 ^ nat (bitlen n - 1) \<le> n" "n < 2 ^ nat (bitlen n)"
    using bitlen_bounds [OF n(1)] by simp_all
  have b1: "1 \<le> bitlen n"
    using n(1) bitlen_eq_zero_iff [of n] bitlen_nonneg [of n] by linarith
  have "(2 ^ nat (bitlen n - 1) :: rat) = of_int (2 ^ nat (bitlen n - 1))" by simp
  also have "\<dots> \<le> of_int n" using b(1) by (simp only: of_int_le_iff)
  finally have lo: "(2 ^ nat (bitlen n - 1) :: rat) \<le> x" using n(2) by linarith
  have "n + 1 \<le> 2 ^ nat (bitlen n)" using b(2) by simp
  then have "(of_int (n + 1) :: rat) \<le> of_int (2 ^ nat (bitlen n))" by (simp only: of_int_le_iff)
  then have hi: "x < 2 ^ nat (bitlen n)" using n(3) by simp
  show ?thesis
    using lo hi b1 assms by (simp add: ilog2_def n_def [symmetric] pow2_nat)
qed

lemma ilog2_bounds_lt1:
  assumes "0 < x" "x < 1"
  shows "pow2 (ilog2 x) \<le> x \<and> x < pow2 (ilog2 x + 1)"
proof -
  define m where "m = \<lceil>1 / x\<rceil> - 1"
  have y: "1 < 1 / x" using assms by simp
  have m: "0 < m" "of_int m < 1 / x" "1 / x \<le> of_int m + 1"
  proof -
    have "2 \<le> \<lceil>1 / x\<rceil>" using y by (simp add: le_ceiling_iff)
    then show "0 < m" by (simp add: m_def)
    show "of_int m < 1 / x" unfolding m_def by linarith
    show "1 / x \<le> of_int m + 1" unfolding m_def by simp
  qed
  define b where "b = bitlen m"
  have bb: "2 ^ nat (b - 1) \<le> m" "m < 2 ^ nat b"
    using bitlen_bounds [OF m(1)] by (simp_all add: b_def)
  have b1: "1 \<le> b"
    unfolding b_def using m(1) bitlen_eq_zero_iff [of m] bitlen_nonneg [of m] by linarith
  have "(2 ^ nat (b - 1) :: rat) = of_int (2 ^ nat (b - 1))" by simp
  also have "\<dots> \<le> of_int m" using bb(1) by (simp only: of_int_le_iff)
  finally have lo: "(2 ^ nat (b - 1) :: rat) < 1 / x" using m(2) by linarith
  have "m + 1 \<le> 2 ^ nat b" using bb(2) by simp
  then have "(of_int (m + 1) :: rat) \<le> of_int (2 ^ nat b)" by (simp only: of_int_le_iff)
  then have hi: "1 / x \<le> 2 ^ nat b" using m(3) by simp
  have i: "ilog2 x = - b"
    using assms by (simp add: ilog2_def m_def b_def)
  have p1: "pow2 (- b) = 1 / 2 ^ nat b"
    using b1 by (simp add: pow2_def)
  have p2: "pow2 (- b + 1) = 1 / 2 ^ nat (b - 1)"
  proof (cases "b = 1")
    case True
    then show ?thesis by (simp add: pow2_def)
  next
    case False
    with b1 have "- b + 1 < 0" by simp
    then show ?thesis by (simp add: pow2_def)
  qed
  have "1 / 2 ^ nat b \<le> x"
    using hi assms(1) by (simp add: field_simps)
  moreover have "x < 1 / 2 ^ nat (b - 1)"
    using lo assms(1) by (simp add: field_simps)
  ultimately show ?thesis
    using p1 p2 by (simp add: i)
qed

lemma ilog2_bounds: "0 < x \<Longrightarrow> pow2 (ilog2 x) \<le> x \<and> x < pow2 (ilog2 x + 1)"
  using ilog2_bounds_ge1 [of x] ilog2_bounds_lt1 [of x] by (cases "1 \<le> x") simp_all

text \<open>Rounding to the nearest integer moves a value by a half at most.\<close>

lemma round_half_even_near: "\<bar>of_int (round_half_even y) - y\<bar> \<le> 1 / 2"
proof -
  have "of_int \<lfloor>y\<rfloor> \<le> y" "y < of_int \<lfloor>y\<rfloor> + 1"
    using floor_correct [of y] by simp_all
  then show ?thesis
    by (auto simp: round_half_even_def Let_def)
qed

lemma round_half_even_of_int: "round_half_even (of_int m) = m"
  by (simp add: round_half_even_def)

lemma pow2_nonpos: "p \<le> 0 \<Longrightarrow> pow2 p = 1 / 2 ^ nat (- p)"
  by (auto simp: pow2_def)

lemma ilog2_of_int: "0 < n \<Longrightarrow> ilog2 (of_int n) = bitlen n - 1"
  by (simp add: ilog2_def)

lemma bitlen_below_2_53:
  assumes "0 < n" and "n < 2 ^ 53"
  shows "bitlen n \<le> 53" and "1 \<le> bitlen n"
proof -
  show "bitlen n \<le> 53"
    using assms bitlen_le_iff_power [of n 53] by simp
  show "1 \<le> bitlen n"
    using assms bitlen_eq_zero_iff [of n] bitlen_nonneg [of n] by linarith
qed

text \<open>A positive integer below \<open>2^53\<close> has at most 53 bits, so rounding leaves it alone.\<close>

lemma round_pos_of_int:
  assumes "0 < n" and "n < 2 ^ 53"
  shows "round_pos (of_int n) = of_int n"
proof -
  define p where "p = bitlen n - 53"
  have p: "p \<le> 0" "- 1074 \<le> p"
    using bitlen_below_2_53 [OF assms] by (simp_all add: p_def)
  have m: "max (ilog2 (of_int n) - 52) (- 1074) = p"
    using p assms by (simp add: ilog2_of_int p_def)
  have "of_int n / pow2 p = (of_int (n * 2 ^ nat (- p)) :: rat)"
    using p by (simp add: pow2_nonpos)
  then have "round_half_even (of_int n / pow2 p) = n * 2 ^ nat (- p)"
    by (simp only: round_half_even_of_int)
  then show ?thesis
    using p by (simp add: round_pos_def m pow2_nonpos)
qed

lemma round_double_of_int:
  assumes "\<bar>n\<bar> < 2 ^ 53"
  shows "round_double (of_int n) = Fin (of_int n)"
proof -
  have big: "(of_int k :: rat) < pow2 1024" if "k < 2 ^ 53" for k :: int
  proof -
    have "(of_int k :: rat) < of_int (2 ^ 53)"
      using that by (simp only: of_int_less_iff)
    also have "\<dots> \<le> pow2 1024"
      by (simp add: pow2_def)
    finally show ?thesis .
  qed
  consider "n = 0" | "0 < n" | "n < 0" by linarith
  then show ?thesis
  proof cases
    case 1
    then show ?thesis by (simp add: round_double_def)
  next
    case 2
    with assms have "n < 2 ^ 53" by simp
    with 2 show ?thesis
      using big [of n] by (simp add: round_double_def round_pos_of_int)
  next
    case 3
    with assms have "0 < - n" "- n < 2 ^ 53" by simp_all
    then have "round_pos (- of_int n) = - of_int n" "(- of_int n :: rat) < pow2 1024"
      using round_pos_of_int [of "- n"] big [of "- n"] by simp_all
    with 3 show ?thesis
      by (simp add: round_double_def)
  qed
qed

lemma is_integer_of_int: "is_integer_number (Fin (of_int n))"
  by (simp add: is_integer_number_def)

lemma Number_10_50: "StringToNumber ''10.50'' = Fin (21 / 2)"
  by code_simp

lemma cents_10_50: "js_mul (Fin (21 / 2)) (Fin 100) = Fin 1050"
  by code_simp

lemma Number_minus_5: "StringToNumber ''-5'' = Fin (- 5)"
  by code_simp

text \<open>
  Two decimals do not make whole cents either: \<^verbatim>\<open>1.15 * 100\<close> is
  \<open>115 - 2^-46\<close>, printed as 114.99999999999999.
\<close>

lemma cents_1_15:
  "js_mul (StringToNumber ''1.15'') (Fin 100) = Fin (8092405580431359 / 70368744177664)"
  by code_simp

lemma Number_0_125: "StringToNumber ''0.125'' = Fin (1 / 8)"
  by code_simp

lemma cents_0_125: "js_mul (Fin (1 / 8)) (Fin 100) = Fin (25 / 2)"
  by code_simp

section \<open>Validation: facts\<close>

lemma path_issues_at: "i \<in> set (issues_at field r) \<Longrightarrow> path i = [field]"
  by (auto simp: issues_at_def split: sum.splits)

lemma fieldErrors_amount:
  assumes "\<And>i. i \<in> set xs \<Longrightarrow> path i = [''customerId'']"
    and "\<And>i. i \<in> set ys \<Longrightarrow> path i = [''status'']"
  shows "fieldErrors (xs @ [\<lparr>path = [''amount''], message = m\<rparr>] @ ys) ''amount'' = Some [m]"
proof -
  have "filter (\<lambda>i. path i \<noteq> [] \<and> hd (path i) = ''amount'') xs = []"
    using assms(1) by (auto simp: filter_empty_conv)
  moreover have "filter (\<lambda>i. path i \<noteq> [] \<and> hd (path i) = ''amount'') ys = []"
    using assms(2) by (auto simp: filter_empty_conv)
  ultimately show ?thesis
    by (simp add: fieldErrors_def)
qed

lemma FormSchema_amount_nonpositive:
  assumes "js_le (Number v) (Fin 0)"
  shows "FormSchema_amount v = Inl [''Please enter an amount greater than $0.'']"
proof -
  have "Number v \<noteq> NaN"
    using assms by (cases "Number v") simp_all
  then show ?thesis
    using assms by (simp add: FormSchema_amount_def z_coerce_number_gt_def)
qed

lemma safeParse_amount_rejected:
  assumes "FormSchema_amount (raw_amount raw) = Inl [m]"
  shows "FormSchema_omit_id_date raw
         = Failure (issues_at ''customerId'' (FormSchema_customerId (raw_customerId raw))
                    @ [\<lparr>path = [''amount''], message = m\<rparr>]
                    @ issues_at ''status'' (FormSchema_status (raw_status raw)))"
  using assms
  by (simp add: FormSchema_omit_id_date_def issues_at_def split: sum.splits)

text \<open>Validation succeeds exactly on a string, a number above zero and a listed status.\<close>

lemma safeParse_Success_iff:
  "(\<exists>d. FormSchema_omit_id_date raw = Success d) \<longleftrightarrow>
     (\<exists>s. raw_customerId raw = Some (Str s))
     \<and> Number (raw_amount raw) \<noteq> NaN \<and> \<not> js_le (Number (raw_amount raw)) (Fin 0)
     \<and> raw_status raw \<in> {Some (Str ''pending''), Some (Str ''paid'')}"
  by (auto simp: FormSchema_omit_id_date_def FormSchema_customerId_def FormSchema_amount_def
      FormSchema_status_def z_string_def z_coerce_number_gt_def z_enum_def Let_def
      split: sum.splits option.splits FormDataEntryValue.splits if_splits)

lemma safeParse_Success_amount:
  assumes "FormSchema_omit_id_date raw = Success d"
  shows "amount d = Number (raw_amount raw)" and "amount d \<noteq> NaN"
    and "\<not> js_le (amount d) (Fin 0)"
  using assms
  by (auto simp: FormSchema_omit_id_date_def FormSchema_amount_def z_coerce_number_gt_def
      Let_def split: sum.splits if_splits)

lemma safeParse_Failure_nonempty:
  "FormSchema_omit_id_date raw = Failure issues \<Longrightarrow> issues \<noteq> []"
  by (auto simp: FormSchema_omit_id_date_def issues_at_def Let_def FormSchema_customerId_def
      FormSchema_amount_def FormSchema_status_def z_string_def z_coerce_number_gt_def z_enum_def
      split: sum.splits option.splits FormDataEntryValue.splits if_splits)

lemma safeParse_10_50:
  assumes "FormData_get formData ''customerId'' = Some (Str ''C1'')"
    and "FormData_get formData ''amount'' = Some (Str ''10.50'')"
    and "FormData_get formData ''status'' = Some (Str ''pending'')"
  shows "FormSchema_omit_id_date (raw_of formData)
         = Success \<lparr>customerId = ''C1'', amount = Fin (21 / 2), status = ''pending''\<rparr>"
  using assms
  by (simp add: FormSchema_omit_id_date_def raw_of_def FormSchema_customerId_def
      FormSchema_amount_def FormSchema_status_def z_string_def z_coerce_number_gt_def z_enum_def
      Number_10_50)

lemma safeParse_0_125:
  "FormSchema_omit_id_date (raw_of (demo_form ''0.125''))
   = Success \<lparr>customerId = ''C1'', amount = Fin (1 / 8), status = ''pending''\<rparr>"
  by (simp add: FormSchema_omit_id_date_def raw_of_def FormSchema_customerId_def
      FormSchema_amount_def FormSchema_status_def z_string_def z_coerce_number_gt_def z_enum_def
      Number_0_125 demo_form_def FormData_get_def)

lemma safeParse_minus_5:
  "FormSchema_omit_id_date (raw_of (demo_form ''-5''))
   = Failure [\<lparr>path = [''amount''], message = ''Please enter an amount greater than $0.''\<rparr>]"
  by (simp add: FormSchema_omit_id_date_def raw_of_def FormSchema_customerId_def
      FormSchema_amount_def FormSchema_status_def z_string_def z_coerce_number_gt_def z_enum_def
      Number_minus_5 demo_form_def FormData_get_def issues_at_def)

section \<open>Effects: facts\<close>

lemma run_sql_ok:
  "sql_error e q = None \<Longrightarrow>
   sql e q w = (Normal, w\<lparr>issued := issued w @ [q],
                          invoices := exec_sql (generated_id e) q (invoices w)\<rparr>)"
  by (simp add: sql_def)

lemma run_sql_fail:
  "sql_error e q = Some err \<Longrightarrow> sql e q w = (Throw err, w\<lparr>issued := issued w @ [q]\<rparr>)"
  by (simp add: sql_def)

text \<open>Nothing below a \<open>throw\<close> runs.\<close>

lemma seq_throw: "seq (throw x) k w = (Throw x, w)"
  by (simp add: seq_def throw_def)

lemma issued_createInvoice:
  assumes "FormSchema_omit_id_date (raw_of formData) = Success data"
  shows "issued (snd (createInvoice e prevState formData w))
         = issued w @ [SQL_INSERT (customerId data) (js_mul (amount data) (Fin 100))
                         (status data) (today e)]"
  using assms
  by (simp add: createInvoice_def CreateInvoice_safeParse_def seq_def try_catch_def sql_def
      return_def revalidatePath_def redirect_def throw_def Let_def split: option.splits)

lemma issued_updateInvoice:
  assumes "FormSchema_omit_id_date (raw_of formData) = Success data"
  shows "issued (snd (updateInvoice e ident formData w))
         = issued w @ [SQL_UPDATE (customerId data) (js_mul (amount data) (Fin 100))
                         (status data) ident]"
  using assms
  by (simp add: updateInvoice_def UpdateInvoice_safeParse_def seq_def try_catch_def sql_def
      return_def revalidatePath_def redirect_def throw_def Let_def split: option.splits)

lemma invoices_updateInvoice:
  "invoices (snd (updateInvoice e ident formData w)) = invoices w
   \<or> (\<exists>c a s. invoices (snd (updateInvoice e ident formData w))
               = exec_sql (generated_id e) (SQL_UPDATE c a s ident) (invoices w))"
  by (auto simp: updateInvoice_def seq_def try_catch_def sql_def throw_def return_def
      revalidatePath_def redirect_def Let_def
      split: SafeParseResult.splits option.splits)

lemma updateInvoice_demo:
  "invoices (snd (updateInvoice demo_env ''inv-1''
       [(''customerId'', Str ''C7''), (''amount'', Str ''10.50''), (''status'', Str ''paid'')]
       demo_world))
   = [\<lparr>row_id = ''inv-1'', row_customer_id = ''C7'', row_amount = Fin 1050,
        row_status = ''paid'', row_date = ''2026-10-01''\<rparr>,
      \<lparr>row_id = ''inv-2'', row_customer_id = ''C2'', row_amount = Fin 400,
        row_status = ''paid'', row_date = ''2026-10-02''\<rparr>]"
  by code_simp

lemma invoices_delete_logic:
  "invoices (snd (deleteInvoice_logic e ident w))
   = (if sql_error e (SQL_DELETE ident) = None
      then filter (\<lambda>r. row_id r \<noteq> ident) (invoices w) else invoices w)"
  by (simp add: deleteInvoice_logic_def try_catch_def seq_def sql_def revalidatePath_def
      return_def Let_def split: option.splits)

lemma invoices_actions_delete:
  "invoices (snd (actions_deleteInvoice e ident w))
   = (if sql_error e (SQL_DELETE ident) = None
      then filter (\<lambda>r. row_id r \<noteq> ident) (invoices w) else invoices w)"
  by (simp add: actions_deleteInvoice_def seq_def sql_def revalidatePath_def
      Let_def split: option.splits)

section \<open>Creating an invoice\<close>

text \<open>
  C1. For the form input with customerId \<open>C1\<close>, amount \<open>10.50\<close> and status \<open>pending\<close>,
  \<open>createInvoice\<close> converts the amount to exactly 1050 cents and sends exactly one
  statement, the INSERT of that customer, 1050, \<open>pending\<close> and the current date: the text
  of the clock's \<open>toISOString()\<close> before its first \<open>T\<close>, so the date \<open>d\<close> whenever the
  clock reads \<open>d\<close>, \<open>T\<close> and a time. When the database accepts the statement, the row is
  in the table, the path \<open>/dashboard/invoices\<close> is invalidated and the action ends in the
  redirect to \<open>/dashboard/invoices\<close>.
\<close>

theorem createInvoice_valid_input:
  assumes "FormData_get formData ''customerId'' = Some (Str ''C1'')"
    and "FormData_get formData ''amount'' = Some (Str ''10.50'')"
    and "FormData_get formData ''status'' = Some (Str ''pending'')"
  shows "issued (snd (createInvoice e prevState formData w))
           = issued w @ [SQL_INSERT ''C1'' (Fin 1050) ''pending''
                           (takeWhile (\<lambda>c. c \<noteq> CHR ''T'') (now_iso e))]
       \<and> (\<forall>d t. now_iso e = d @ CHR ''T'' # t \<and> CHR ''T'' \<notin> set d \<longrightarrow>
            issued (snd (createInvoice e prevState formData w))
              = issued w @ [SQL_INSERT ''C1'' (Fin 1050) ''pending'' d])
       \<and> (sql_error e (SQL_INSERT ''C1'' (Fin 1050) ''pending''
                          (takeWhile (\<lambda>c. c \<noteq> CHR ''T'') (now_iso e))) = None \<longrightarrow>
            createInvoice e prevState formData w
              = (Throw (NEXT_REDIRECT ''/dashboard/invoices''),
                 w\<lparr>issued := issued w @ [SQL_INSERT ''C1'' (Fin 1050) ''pending''
                                           (takeWhile (\<lambda>c. c \<noteq> CHR ''T'') (now_iso e))],
                   invoices := invoices w @ [\<lparr>row_id = generated_id e, row_customer_id = ''C1'',
                                row_amount = Fin 1050, row_status = ''pending'',
                                row_date = takeWhile (\<lambda>c. c \<noteq> CHR ''T'') (now_iso e)\<rparr>],
                   revalidated := revalidated w @ [''/dashboard/invoices'']\<rparr>))"
proof -
  let ?date = "takeWhile (\<lambda>c. c \<noteq> CHR ''T'') (now_iso e)"
  let ?q = "SQL_INSERT ''C1'' (Fin 1050) ''pending'' ?date"
  have parsed: "CreateInvoice_safeParse (raw_of formData)
      = Success \<lparr>customerId = ''C1'', amount = Fin (21 / 2), status = ''pending''\<rparr>"
    using safeParse_10_50 [OF assms] by (simp add: CreateInvoice_safeParse_def)
  have sent: "issued (snd (createInvoice e prevState formData w)) = issued w @ [?q]"
    and accepted: "sql_error e ?q = None \<Longrightarrow>
      createInvoice e prevState formData w
        = (Throw (NEXT_REDIRECT ''/dashboard/invoices''),
           w\<lparr>issued := issued w @ [?q],
             invoices := invoices w @ [\<lparr>row_id = generated_id e, row_customer_id = ''C1'',
                          row_amount = Fin 1050, row_status = ''pending'', row_date = ?date\<rparr>],
             revalidated := revalidated w @ [''/dashboard/invoices'']\<rparr>)"
  proof -
    show "issued (snd (createInvoice e prevState formData w)) = issued w @ [?q]"
      using parsed
      by (cases "sql_error e ?q")
        (simp_all add: createInvoice_def today_def cents_10_50 seq_def try_catch_def run_sql_ok
          run_sql_fail revalidatePath_def redirect_def throw_def return_def del: js_mul.simps)
    show "createInvoice e prevState formData w
        = (Throw (NEXT_REDIRECT ''/dashboard/invoices''),
           w\<lparr>issued := issued w @ [?q],
             invoices := invoices w @ [\<lparr>row_id = generated_id e, row_customer_id = ''C1'',
                          row_amount = Fin 1050, row_status = ''pending'', row_date = ?date\<rparr>],
             revalidated := revalidated w @ [''/dashboard/invoices'']\<rparr>)"
      if "sql_error e ?q = None"
      using parsed that
      by (simp add: createInvoice_def today_def cents_10_50 seq_def try_catch_def run_sql_ok
          revalidatePath_def redirect_def throw_def del: js_mul.simps)
  qed
  have clock: "?date = d" if "now_iso e = d @ CHR ''T'' # t" "CHR ''T'' \<notin> set d" for d t
  proof -
    have "takeWhile (\<lambda>c. c \<noteq> CHR ''T'') (d @ CHR ''T'' # t)
          = d @ takeWhile (\<lambda>c. c \<noteq> CHR ''T'') (CHR ''T'' # t)"
      using that(2) by (intro takeWhile_append2) auto
    then show ?thesis
      using that(1) by simp
  qed
  from sent accepted clock show ?thesis
    by (intro conjI allI impI) (auto simp del: takeWhile_append2)
qed

theorem createInvoice_valid_input_witness:
  "createInvoice demo_env no_state (demo_form ''10.50'') demo_world
   = (Throw (NEXT_REDIRECT ''/dashboard/invoices''),
      demo_world\<lparr>issued := [SQL_INSERT ''C1'' (Fin 1050) ''pending'' ''2026-11-03''],
        invoices := invoices demo_world @ [\<lparr>row_id = ''inv-3'', row_customer_id = ''C1'',
                      row_amount = Fin 1050, row_status = ''pending'', row_date = ''2026-11-03''\<rparr>],
        revalidated := [''/dashboard/invoices'']\<rparr>)
   \<and> issued (snd (createInvoice (demo_env\<lparr>now_iso := ''1999-12-31T23:59:59.999Z''\<rparr>) no_state
                     (demo_form ''10.50'') demo_world))
     = [SQL_INSERT ''C1'' (Fin 1050) ''pending'' ''1999-12-31'']"
proof -
  let ?e2 = "demo_env\<lparr>now_iso := ''1999-12-31T23:59:59.999Z''\<rparr>"
  have f: "FormData_get (demo_form ''10.50'') ''customerId'' = Some (Str ''C1'')"
    "FormData_get (demo_form ''10.50'') ''amount'' = Some (Str ''10.50'')"
    "FormData_get (demo_form ''10.50'') ''status'' = Some (Str ''pending'')"
    by (simp_all add: demo_form_def FormData_get_def)
  have 1: "createInvoice demo_env no_state (demo_form ''10.50'') demo_world
   = (Throw (NEXT_REDIRECT ''/dashboard/invoices''),
      demo_world\<lparr>issued := [SQL_INSERT ''C1'' (Fin 1050) ''pending'' ''2026-11-03''],
        invoices := invoices demo_world @ [\<lparr>row_id = ''inv-3'', row_customer_id = ''C1'',
                      row_amount = Fin 1050, row_status = ''pending'', row_date = ''2026-11-03''\<rparr>],
        revalidated := [''/dashboard/invoices'']\<rparr>)"
    using createInvoice_valid_input [OF f, of demo_env no_state demo_world]
    by (simp add: demo_env_def demo_world_def)
  have c: "now_iso ?e2 = ''1999-12-31'' @ CHR ''T'' # ''23:59:59.999Z''"
    "CHR ''T'' \<notin> set ''1999-12-31''"
    by simp_all
  have 2: "issued (snd (createInvoice ?e2 no_state (demo_form ''10.50'') demo_world))
     = [SQL_INSERT ''C1'' (Fin 1050) ''pending'' ''1999-12-31'']"
    using createInvoice_valid_input [OF f, of ?e2 no_state demo_world] c
    by (simp add: demo_world_def)
  from 1 2 show ?thesis by simp
qed

text \<open>
  C2. For every form input whose amount coerces to a number less than or equal to 0,
  \<open>createInvoice\<close> returns a result whose \<open>errors\<close> hold, for the field \<open>amount\<close>, the
  message \<open>Please enter an amount greater than $0.\<close>, with the message
  \<open>Missing Fields. Failed to Create Invoice.\<close>; the world is as before, so no statement
  went to the database.
\<close>

theorem createInvoice_nonpositive_amount:
  assumes "js_le (Number (FormData_get formData ''amount'')) (Fin 0)"
  shows "\<exists>fe. createInvoice e prevState formData w
                = (Return \<lparr>errors = Some fe,
                           message = Some ''Missing Fields. Failed to Create Invoice.''\<rparr>, w)
              \<and> fe ''amount'' = Some [''Please enter an amount greater than $0.'']"
proof -
  let ?m = "''Please enter an amount greater than $0.''"
  let ?issues = "issues_at ''customerId'' (FormSchema_customerId (raw_customerId (raw_of formData)))
                 @ [\<lparr>path = [''amount''], message = ?m\<rparr>]
                 @ issues_at ''status'' (FormSchema_status (raw_status (raw_of formData)))"
  have "FormSchema_amount (raw_amount (raw_of formData)) = Inl [?m]"
    using assms by (simp add: raw_of_def FormSchema_amount_nonpositive)
  then have "CreateInvoice_safeParse (raw_of formData) = Failure ?issues"
    by (simp only: CreateInvoice_safeParse_def safeParse_amount_rejected)
  then have "createInvoice e prevState formData w
             = (Return \<lparr>errors = Some (fieldErrors ?issues),
                        message = Some ''Missing Fields. Failed to Create Invoice.''\<rparr>, w)"
    by (simp add: createInvoice_def return_def)
  moreover have "fieldErrors ?issues ''amount'' = Some [?m]"
    by (rule fieldErrors_amount) (auto dest: path_issues_at)
  ultimately show ?thesis by blast
qed

theorem createInvoice_nonpositive_amount_witness:
  "js_le (Number (FormData_get (demo_form ''-5'') ''amount'')) (Fin 0)
   \<and> (\<exists>fe. createInvoice demo_env no_state (demo_form ''-5'') demo_world
              = (Return \<lparr>errors = Some fe,
                         message = Some ''Missing Fields. Failed to Create Invoice.''\<rparr>, demo_world)
            \<and> fe ''amount'' = Some [''Please enter an amount greater than $0.''])"
proof -
  have h: "js_le (Number (FormData_get (demo_form ''-5'') ''amount'')) (Fin 0)"
    by (simp add: demo_form_def FormData_get_def Number_minus_5)
  from h createInvoice_nonpositive_amount [OF h] show ?thesis by blast
qed

text \<open>
  C3. When the INSERT that \<open>createInvoice\<close> sends for validated input is rejected with an
  error, \<open>createInvoice\<close> returns exactly the object with the message
  \<open>Database Error: Failed to Create Invoice.\<close> and no \<open>errors\<close>; the statement was sent,
  and nothing else changed: no path is invalidated and there is no redirect.
\<close>

theorem createInvoice_database_error:
  assumes "CreateInvoice_safeParse (raw_of formData) = Success data"
    and "sql_error e (SQL_INSERT (customerId data) (js_mul (amount data) (Fin 100))
                       (status data) (today e)) = Some err"
  shows "createInvoice e prevState formData w
         = (Return \<lparr>errors = None,
                    message = Some ''Database Error: Failed to Create Invoice.''\<rparr>,
            w\<lparr>issued := issued w @ [SQL_INSERT (customerId data) (js_mul (amount data) (Fin 100))
                                     (status data) (today e)]\<rparr>)"
  using assms
  by (simp add: createInvoice_def seq_def try_catch_def run_sql_fail return_def)

theorem createInvoice_database_error_witness:
  "createInvoice failing_env no_state (demo_form ''10.50'') demo_world
   = (Return \<lparr>errors = None, message = Some ''Database Error: Failed to Create Invoice.''\<rparr>,
      demo_world\<lparr>issued := [SQL_INSERT ''C1'' (Fin 1050) ''pending'' ''2026-11-03'']\<rparr>)"
proof -
  let ?d = "\<lparr>customerId = ''C1'', amount = Fin (21 / 2), status = ''pending''\<rparr>"
  have p: "CreateInvoice_safeParse (raw_of (demo_form ''10.50'')) = Success ?d"
    unfolding CreateInvoice_safeParse_def
    by (rule safeParse_10_50) (simp_all add: demo_form_def FormData_get_def)
  have q: "sql_error failing_env
             (SQL_INSERT (customerId ?d) (js_mul (amount ?d) (Fin 100)) (status ?d)
                (today failing_env))
           = Some (DatabaseError ''connection refused'')"
    by (simp add: failing_env_def)
  show ?thesis
    using createInvoice_database_error [OF p q, of no_state demo_world]
    by (simp add: cents_10_50 today_def failing_env_def demo_world_def del: js_mul.simps)
qed

section \<open>Updating an invoice\<close>

text \<open>
  C4. For every form input that fails validation (the customer is no string, the amount
  is not a number, the amount is not greater than 0, or the status is neither \<open>pending\<close>
  nor \<open>paid\<close>), \<open>updateInvoice\<close> throws the validation error with its issues instead of
  returning an object with field errors; the world is as before, so no statement went to
  the database.
\<close>

theorem updateInvoice_validation_failure:
  assumes "(\<forall>s. FormData_get formData ''customerId'' \<noteq> Some (Str s))
           \<or> Number (FormData_get formData ''amount'') = NaN
           \<or> js_le (Number (FormData_get formData ''amount'')) (Fin 0)
           \<or> FormData_get formData ''status'' \<notin> {Some (Str ''pending''), Some (Str ''paid'')}"
  shows "\<exists>issues. issues \<noteq> []
           \<and> UpdateInvoice_safeParse (raw_of formData) = Failure issues
           \<and> updateInvoice e ident formData w = (Throw (ZodError issues), w)"
proof -
  have "\<not> (\<exists>d. FormSchema_omit_id_date (raw_of formData) = Success d)"
    using assms unfolding safeParse_Success_iff by (auto simp: raw_of_def)
  then obtain issues where f: "FormSchema_omit_id_date (raw_of formData) = Failure issues"
    by (cases "FormSchema_omit_id_date (raw_of formData)") auto
  then have "updateInvoice e ident formData w = (Throw (ZodError issues), w)"
    by (simp add: updateInvoice_def UpdateInvoice_safeParse_def throw_def)
  with f safeParse_Failure_nonempty [OF f] show ?thesis
    by (auto simp: UpdateInvoice_safeParse_def)
qed

theorem updateInvoice_validation_failure_witness:
  "js_le (Number (FormData_get (demo_form ''-5'') ''amount'')) (Fin 0)
   \<and> updateInvoice demo_env ''inv-1'' (demo_form ''-5'') demo_world
     = (Throw (ZodError [\<lparr>path = [''amount''],
                          message = ''Please enter an amount greater than $0.''\<rparr>]),
        demo_world)"
proof -
  have h: "js_le (Number (FormData_get (demo_form ''-5'') ''amount'')) (Fin 0)"
    by (simp add: demo_form_def FormData_get_def Number_minus_5)
  then obtain issues where
    "UpdateInvoice_safeParse (raw_of (demo_form ''-5'')) = Failure issues"
    "updateInvoice demo_env ''inv-1'' (demo_form ''-5'') demo_world
     = (Throw (ZodError issues), demo_world)"
    using updateInvoice_validation_failure [of "demo_form ''-5''" demo_env "''inv-1''" demo_world]
    by blast
  with h show ?thesis
    by (simp add: UpdateInvoice_safeParse_def safeParse_minus_5)
qed

text \<open>
  C7. For every row of the table and every call of \<open>updateInvoice\<close>, the row is still at
  its place afterwards with the identifier and the date it had; a row whose identifier
  is not the one given is unchanged altogether. So the UPDATE assigns nothing but the
  customer, the amount and the status of the rows with the given identifier.
\<close>

theorem updateInvoice_keeps_id_and_date:
  "length (invoices (snd (updateInvoice e ident formData w))) = length (invoices w)
   \<and> (\<forall>i < length (invoices w).
        row_id (invoices (snd (updateInvoice e ident formData w)) ! i) = row_id (invoices w ! i)
        \<and> row_date (invoices (snd (updateInvoice e ident formData w)) ! i)
            = row_date (invoices w ! i)
        \<and> (row_id (invoices w ! i) \<noteq> ident
             \<longrightarrow> invoices (snd (updateInvoice e ident formData w)) ! i = invoices w ! i))"
  using invoices_updateInvoice [of e ident formData w]
  by auto

theorem updateInvoice_keeps_id_and_date_witness:
  "(1::nat) < length (invoices demo_world)
   \<and> row_id (invoices demo_world ! 1) \<noteq> ''inv-1''
   \<and> invoices (snd (updateInvoice demo_env ''inv-1''
         [(''customerId'', Str ''C7''), (''amount'', Str ''10.50''), (''status'', Str ''paid'')]
         demo_world)) ! 1 = invoices demo_world ! 1
   \<and> row_date (invoices (snd (updateInvoice demo_env ''inv-1''
         [(''customerId'', Str ''C7''), (''amount'', Str ''10.50''), (''status'', Str ''paid'')]
         demo_world)) ! 0) = ''2026-10-01''
   \<and> row_customer_id (invoices (snd (updateInvoice demo_env ''inv-1''
         [(''customerId'', Str ''C7''), (''amount'', Str ''10.50''), (''status'', Str ''paid'')]
         demo_world)) ! 0) = ''C7''"
proof -
  let ?fd = "[(''customerId'', Str ''C7''), (''amount'', Str ''10.50''), (''status'', Str ''paid'')]"
  note t = updateInvoice_keeps_id_and_date [of demo_env "''inv-1''" ?fd demo_world]
  have l: "(1::nat) < length (invoices demo_world)" "(0::nat) < length (invoices demo_world)"
    by (simp_all add: demo_world_def)
  have n: "row_id (invoices demo_world ! 1) \<noteq> ''inv-1''"
    by (simp add: demo_world_def)
  have a: "invoices (snd (updateInvoice demo_env ''inv-1'' ?fd demo_world)) ! 1
           = invoices demo_world ! 1"
    using t l(1) n by blast
  have "row_date (invoices (snd (updateInvoice demo_env ''inv-1'' ?fd demo_world)) ! 0)
        = row_date (invoices demo_world ! 0)"
    using t l(2) by blast
  then have b: "row_date (invoices (snd (updateInvoice demo_env ''inv-1'' ?fd demo_world)) ! 0)
        = ''2026-10-01''"
    by (simp add: demo_world_def)
  have c: "row_customer_id (invoices (snd (updateInvoice demo_env ''inv-1'' ?fd demo_world)) ! 0)
        = ''C7''"
    by (simp add: updateInvoice_demo)
  from l(1) n a b c show ?thesis by blast
qed

text \<open>
  C8, as amended. For every amount the validator accepts, a number greater than 0, the
  amount that \<open>createInvoice\<close> and \<open>updateInvoice\<close> send to the database is the product
  \<^verbatim>\<open>amount * 100\<close> of doubles, not rounded to a whole number. It is an integer count
  of cents whenever the exact product of the amount and 100 is an integer of magnitude
  below \<open>2^53\<close>.
\<close>

theorem persisted_amount_is_product:
  assumes "FormSchema_omit_id_date (raw_of formData) = Success data"
  shows "amount data \<noteq> NaN \<and> \<not> js_le (amount data) (Fin 0)
       \<and> issued (snd (createInvoice e prevState formData w))
           = issued w @ [SQL_INSERT (customerId data) (js_mul (amount data) (Fin 100))
                           (status data) (today e)]
       \<and> issued (snd (updateInvoice e ident formData w))
           = issued w @ [SQL_UPDATE (customerId data) (js_mul (amount data) (Fin 100))
                           (status data) ident]
       \<and> (\<forall>q n. amount data = Fin q \<and> q * 100 = of_int n \<and> \<bar>n\<bar> < 2 ^ 53
            \<longrightarrow> js_mul (amount data) (Fin 100) = Fin (of_int n)
                \<and> is_integer_number (js_mul (amount data) (Fin 100)))"
proof -
  have "js_mul (amount data) (Fin 100) = Fin (of_int n)
        \<and> is_integer_number (js_mul (amount data) (Fin 100))"
    if "amount data = Fin q" "q * 100 = of_int n" "\<bar>n\<bar> < 2 ^ 53" for q n
    using that round_double_of_int [of n] by (simp add: is_integer_of_int)
  then show ?thesis
    using issued_createInvoice [OF assms] issued_updateInvoice [OF assms]
      safeParse_Success_amount(2,3) [OF assms]
    by blast
qed

theorem persisted_amount_is_product_witness:
  "FormSchema_omit_id_date (raw_of (demo_form ''10.50''))
     = Success \<lparr>customerId = ''C1'', amount = Fin (21 / 2), status = ''pending''\<rparr>
   \<and> (21 / 2 :: rat) * 100 = of_int 1050 \<and> \<bar>1050 :: int\<bar> < 2 ^ 53
   \<and> issued (snd (createInvoice demo_env no_state (demo_form ''10.50'') demo_world))
     = [SQL_INSERT ''C1'' (Fin 1050) ''pending'' ''2026-11-03'']
   \<and> is_integer_number (js_mul (Fin (21 / 2)) (Fin 100))"
proof -
  let ?d = "\<lparr>customerId = ''C1'', amount = Fin (21 / 2), status = ''pending''\<rparr>"
  have p: "FormSchema_omit_id_date (raw_of (demo_form ''10.50'')) = Success ?d"
    by (rule safeParse_10_50) (simp_all add: demo_form_def FormData_get_def)
  have h: "(21 / 2 :: rat) * 100 = of_int 1050" "\<bar>1050 :: int\<bar> < 2 ^ 53"
    by simp_all
  note t = persisted_amount_is_product [OF p, of demo_env no_state demo_world "''inv-1''"]
  from t have i: "issued (snd (createInvoice demo_env no_state (demo_form ''10.50'') demo_world))
     = [SQL_INSERT ''C1'' (Fin 1050) ''pending'' ''2026-11-03'']"
    by (simp add: cents_10_50 today_def demo_env_def demo_world_def del: js_mul.simps)
  from t have "amount ?d = Fin (21 / 2) \<and> (21 / 2 :: rat) * 100 = of_int 1050
                 \<and> \<bar>1050 :: int\<bar> < 2 ^ 53
      \<longrightarrow> is_integer_number (js_mul (amount ?d) (Fin 100))"
    by blast
  then have "is_integer_number (js_mul (Fin (21 / 2)) (Fin 100))"
    by (simp del: js_mul.simps)
  with p h i show ?thesis by blast
qed

text \<open>
  C8 as it is stated, that the amount sent is an integer count of cents for every
  accepted amount, fails: the amount \<open>0.125\<close> is accepted, and both actions send
  \<open>12.5\<close>.
\<close>

theorem persisted_amount_not_integer_counterexample:
  "CreateInvoice_safeParse (raw_of (demo_form ''0.125''))
     = Success \<lparr>customerId = ''C1'', amount = Fin (1 / 8), status = ''pending''\<rparr>
   \<and> issued (snd (createInvoice demo_env no_state (demo_form ''0.125'') demo_world))
     = [SQL_INSERT ''C1'' (Fin (25 / 2)) ''pending'' ''2026-11-03'']
   \<and> issued (snd (updateInvoice demo_env ''inv-1'' (demo_form ''0.125'') demo_world))
     = [SQL_UPDATE ''C1'' (Fin (25 / 2)) ''pending'' ''inv-1'']
   \<and> \<not> is_integer_number (Fin (25 / 2))"
proof -
  have "\<not> is_integer_number (Fin (25 / 2))"
    by code_simp
  then show ?thesis
    using issued_createInvoice [OF safeParse_0_125, of demo_env no_state demo_world]
      issued_updateInvoice [OF safeParse_0_125, of demo_env "''inv-1''" demo_world]
    by (simp add: safeParse_0_125 CreateInvoice_safeParse_def cents_0_125 today_def demo_env_def
        demo_world_def del: js_mul.simps)
qed

section \<open>Deleting an invoice\<close>

text \<open>
  C5. For every identifier, \<open>deleteInvoice\<close> throws the error \<open>Failed to Delete Invoice\<close>
  before its delete logic: no statement is sent, the table is as before, no path is
  invalidated, and the action never returns a message.
\<close>

theorem deleteInvoice_always_throws:
  "deleteInvoice e ident w = (Throw (Error ''Failed to Delete Invoice''), w)
   \<and> issued (snd (deleteInvoice e ident w)) = issued w
   \<and> invoices (snd (deleteInvoice e ident w)) = invoices w
   \<and> revalidated (snd (deleteInvoice e ident w)) = revalidated w
   \<and> (\<forall>st. fst (deleteInvoice e ident w) \<noteq> Return st)"
  by (simp add: deleteInvoice_def seq_throw)

theorem deleteInvoice_always_throws_witness:
  "deleteInvoice demo_env ''inv-1'' demo_world
   = (Throw (Error ''Failed to Delete Invoice''), demo_world)
   \<and> invoices (snd (deleteInvoice demo_env ''inv-1'' demo_world))
     = [\<lparr>row_id = ''inv-1'', row_customer_id = ''C1'', row_amount = Fin 1050,
          row_status = ''pending'', row_date = ''2026-10-01''\<rparr>,
        \<lparr>row_id = ''inv-2'', row_customer_id = ''C2'', row_amount = Fin 400,
          row_status = ''paid'', row_date = ''2026-10-02''\<rparr>]"
  using deleteInvoice_always_throws [of demo_env "''inv-1''" demo_world]
  by (simp add: demo_world_def)

text \<open>
  C9. Where the delete logic is reached, that is in the \<open>try\<close> below the \<open>throw\<close> of
  \<open>deleteInvoice\<close> and in the \<open>deleteInvoice\<close> of \<open>app/lib/actions.ts\<close>, the rows with
  another identifier stay as they are, in their order; and when the database accepts the
  DELETE, the table afterwards is the table before without the rows that have the given
  identifier.
\<close>

theorem delete_removes_matching_rows:
  "filter (\<lambda>r. row_id r \<noteq> ident) (invoices (snd (deleteInvoice_logic e ident w)))
     = filter (\<lambda>r. row_id r \<noteq> ident) (invoices w)
   \<and> filter (\<lambda>r. row_id r \<noteq> ident) (invoices (snd (actions_deleteInvoice e ident w)))
     = filter (\<lambda>r. row_id r \<noteq> ident) (invoices w)
   \<and> (sql_error e (SQL_DELETE ident) = None \<longrightarrow>
        invoices (snd (deleteInvoice_logic e ident w))
          = filter (\<lambda>r. row_id r \<noteq> ident) (invoices w)
        \<and> invoices (snd (actions_deleteInvoice e ident w))
          = filter (\<lambda>r. row_id r \<noteq> ident) (invoices w))"
  by (simp add: invoices_delete_logic invoices_actions_delete)

theorem delete_removes_matching_rows_witness:
  "sql_error demo_env (SQL_DELETE ''inv-1'') = None
   \<and> invoices (snd (deleteInvoice_logic demo_env ''inv-1'' demo_world))
     = [\<lparr>row_id = ''inv-2'', row_customer_id = ''C2'', row_amount = Fin 400,
          row_status = ''paid'', row_date = ''2026-10-02''\<rparr>]
   \<and> invoices (snd (actions_deleteInvoice demo_env ''inv-1'' demo_world))
     = [\<lparr>row_id = ''inv-2'', row_customer_id = ''C2'', row_amount = Fin 400,
          row_status = ''paid'', row_date = ''2026-10-02''\<rparr>]"
proof -
  have h: "sql_error demo_env (SQL_DELETE ''inv-1'') = None"
    by (simp add: demo_env_def)
  from h delete_removes_matching_rows [of "''inv-1''" demo_env demo_world]
  show ?thesis by (simp add: demo_world_def)
qed

text \<open>
  C10. The two versions of \<open>deleteInvoice\<close> agree on no input. For every identifier the
  one of \<open>app/lib/actions.ts\<close> sends the DELETE and never returns a message, and when the
  database accepts the statement it removes the rows, invalidates the path and ends
  normally; the one of \<open>part_000\<close> throws \<open>Failed to Delete Invoice\<close> and leaves the
  world as it was.
\<close>

theorem deleteInvoice_versions_differ:
  "actions_deleteInvoice e ident w \<noteq> deleteInvoice e ident w
   \<and> deleteInvoice e ident w = (Throw (Error ''Failed to Delete Invoice''), w)
   \<and> issued (snd (actions_deleteInvoice e ident w)) = issued w @ [SQL_DELETE ident]
   \<and> (\<forall>st. fst (actions_deleteInvoice e ident w) \<noteq> Return st)
   \<and> (sql_error e (SQL_DELETE ident) = None \<longrightarrow>
        actions_deleteInvoice e ident w
          = (Normal, w\<lparr>issued := issued w @ [SQL_DELETE ident],
                      invoices := filter (\<lambda>r. row_id r \<noteq> ident) (invoices w),
                      revalidated := revalidated w @ [''/dashboard/invoices'']\<rparr>))"
proof -
  have d: "deleteInvoice e ident w = (Throw (Error ''Failed to Delete Invoice''), w)"
    by (simp add: deleteInvoice_def seq_throw)
  have i: "issued (snd (actions_deleteInvoice e ident w)) = issued w @ [SQL_DELETE ident]"
    by (simp add: actions_deleteInvoice_def seq_def sql_def revalidatePath_def Let_def
        split: option.splits)
  have "issued (snd (actions_deleteInvoice e ident w)) \<noteq> issued (snd (deleteInvoice e ident w))"
    by (simp add: i d)
  then have n: "actions_deleteInvoice e ident w \<noteq> deleteInvoice e ident w"
    by auto
  have r: "fst (actions_deleteInvoice e ident w) \<noteq> Return st" for st
    by (simp add: actions_deleteInvoice_def seq_def sql_def revalidatePath_def Let_def
        split: option.splits)
  have s: "actions_deleteInvoice e ident w
          = (Normal, w\<lparr>issued := issued w @ [SQL_DELETE ident],
                      invoices := filter (\<lambda>r. row_id r \<noteq> ident) (invoices w),
                      revalidated := revalidated w @ [''/dashboard/invoices'']\<rparr>)"
    if "sql_error e (SQL_DELETE ident) = None"
    using that by (simp add: actions_deleteInvoice_def seq_def sql_def revalidatePath_def)
  from d i n r s show ?thesis by blast
qed

theorem deleteInvoice_versions_differ_witness:
  "sql_error demo_env (SQL_DELETE ''inv-1'') = None
   \<and> actions_deleteInvoice demo_env ''inv-1'' demo_world
     = (Normal, demo_world\<lparr>issued := [SQL_DELETE ''inv-1''],
           invoices := [\<lparr>row_id = ''inv-2'', row_customer_id = ''C2'', row_amount = Fin 400,
                          row_status = ''paid'', row_date = ''2026-10-02''\<rparr>],
           revalidated := [''/dashboard/invoices'']\<rparr>)
   \<and> deleteInvoice demo_env ''inv-1'' demo_world
     = (Throw (Error ''Failed to Delete Invoice''), demo_world)"
proof -
  have h: "sql_error demo_env (SQL_DELETE ''inv-1'') = None"
    by (simp add: demo_env_def)
  from h deleteInvoice_versions_differ [of demo_env "''inv-1''" demo_world]
  show ?thesis by (simp add: demo_world_def)
qed

section \<open>Signing in\<close>

text \<open>
  C6. \<open>authenticate\<close> returns \<open>Invalid credentials.\<close> exactly when \<open>signIn\<close> throws an
  \<open>AuthError\<close> of type \<open>CredentialsSignin\<close>; it returns \<open>Something went wrong.\<close> when
  \<open>signIn\<close> throws an \<open>AuthError\<close> of any other type; it throws again every error that is
  no \<open>AuthError\<close>; and it ends normally when \<open>signIn\<close> throws nothing.
\<close>

theorem authenticate_classification:
  "(fst (authenticate e prevState formData w) = Return ''Invalid credentials.''
      \<longleftrightarrow> signIn_error e ''credentials'' formData = Some (AuthError ''CredentialsSignin''))
   \<and> (\<forall>t. signIn_error e ''credentials'' formData = Some (AuthError t)
           \<and> t \<noteq> ''CredentialsSignin''
         \<longrightarrow> authenticate e prevState formData w = (Return ''Something went wrong.'', w))
   \<and> (\<forall>err. signIn_error e ''credentials'' formData = Some err \<and> (\<forall>t. err \<noteq> AuthError t)
         \<longrightarrow> authenticate e prevState formData w = (Throw err, w))
   \<and> (signIn_error e ''credentials'' formData = None
         \<longrightarrow> authenticate e prevState formData w = (Normal, w))"
  by (auto simp: authenticate_def try_catch_def signIn_def return_def throw_def
      split: option.splits js_error.splits if_splits)

theorem authenticate_classification_witness:
  "authenticate (demo_env\<lparr>signIn_error := (\<lambda>p f. Some (AuthError ''CredentialsSignin''))\<rparr>)
       None [] demo_world = (Return ''Invalid credentials.'', demo_world)
   \<and> authenticate (demo_env\<lparr>signIn_error := (\<lambda>p f. Some (AuthError ''CallbackRouteError''))\<rparr>)
       None [] demo_world = (Return ''Something went wrong.'', demo_world)
   \<and> authenticate (demo_env\<lparr>signIn_error := (\<lambda>p f. Some (NEXT_REDIRECT ''/dashboard''))\<rparr>)
       None [] demo_world = (Throw (NEXT_REDIRECT ''/dashboard''), demo_world)
   \<and> authenticate demo_env None [] demo_world = (Normal, demo_world)"
proof -
  let ?e1 = "demo_env\<lparr>signIn_error := (\<lambda>p f. Some (AuthError ''CredentialsSignin''))\<rparr>"
  let ?e2 = "demo_env\<lparr>signIn_error := (\<lambda>p f. Some (AuthError ''CallbackRouteError''))\<rparr>"
  let ?e3 = "demo_env\<lparr>signIn_error := (\<lambda>p f. Some (NEXT_REDIRECT ''/dashboard''))\<rparr>"
  have "fst (authenticate ?e1 None [] demo_world) = Return ''Invalid credentials.''"
    using authenticate_classification [of ?e1 None "[]" demo_world] by simp
  moreover have "snd (authenticate ?e1 None [] demo_world) = demo_world"
    by (simp add: authenticate_def try_catch_def signIn_def return_def)
  ultimately have 1:
    "authenticate ?e1 None [] demo_world = (Return ''Invalid credentials.'', demo_world)"
    by (simp add: prod_eq_iff)
  have 2: "authenticate ?e2 None [] demo_world = (Return ''Something went wrong.'', demo_world)"
    using authenticate_classification [of ?e2 None "[]" demo_world] by simp
  have 3: "authenticate ?e3 None [] demo_world
           = (Throw (NEXT_REDIRECT ''/dashboard''), demo_world)"
    using authenticate_classification [of ?e3 None "[]" demo_world] by simp
  have 4: "authenticate demo_env None [] demo_world = (Normal, demo_world)"
    using authenticate_classification [of demo_env None "[]" demo_world]
    by (simp add: demo_env_def)
  from 1 2 3 4 show ?thesis by simp
qed

end
